theory Spec2Isabelle
  imports Complex_Main "HOL-Library.Word"
begin

section \<open>JavaScript strings\<close>

text \<open>
  The frontend is TypeScript: a string is a sequence of UTF-16 code units.  String
  literals of the source are ASCII and are written through \<open>js\<close>; any other code unit
  is written as a number.
\<close>

type_synonym code_unit = "16 word"
type_synonym jsstring = "code_unit list"

definition js :: "string \<Rightarrow> jsstring" where
  "js s = map of_char s"

text \<open>
  \<open>String.prototype.trim\<close> strips WhiteSpace and LineTerminator code points from both
  ends: TAB, LF, VT, FF, CR, SPACE, NBSP, U+1680, U+2000..U+200A, LS, PS, U+202F,
  U+205F, U+3000 and the byte order mark.
\<close>

definition isWhiteSpace :: "code_unit \<Rightarrow> bool" where
  "isWhiteSpace c \<longleftrightarrow>
     c = 0x9 \<or> c = 0xA \<or> c = 0xB \<or> c = 0xC \<or> c = 0xD \<or> c = 0x20 \<or> c = 0xA0 \<or>
     c = 0x1680 \<or> (0x2000 \<le> c \<and> c \<le> 0x200A) \<or> c = 0x2028 \<or> c = 0x2029 \<or>
     c = 0x202F \<or> c = 0x205F \<or> c = 0x3000 \<or> c = 0xFEFF"

definition trim :: "jsstring \<Rightarrow> jsstring" where
  "trim s = rev (dropWhile isWhiteSpace (rev (dropWhile isWhiteSpace s)))"

text \<open>\<open>s.includes(p)\<close>: \<open>p\<close> occurs in \<open>s\<close> as a contiguous run of code units.\<close>

fun str_includes :: "'a list \<Rightarrow> 'a list \<Rightarrow> bool" where
  "str_includes [] p = (p = [])"
| "str_includes (x # xs) p = (take (length p) (x # xs) = p \<or> str_includes xs p)"

section \<open>Rendering an answer: \<open>formatAnswer\<close> of QueryInterface.tsx\<close>

text \<open>
  What \<open>formatAnswer\<close> returns is a React node: a string (a text node), a \<open>div\<close> with
  children, or a \<open>div\<close> whose content is injected through \<open>dangerouslySetInnerHTML\<close>.
  The two class lists of the source are styling only and are named \<open>ProseHtml\<close> (the
  \<open>prose prose-slate ...\<close> list) and \<open>PreWrapText\<close> (the \<open>whitespace-pre-wrap\<close> list).
\<close>

datatype style = ProseHtml | PreWrapText

datatype node =
    Text jsstring
  | Div style "node list"
  | DivInnerHTML style jsstring

definition formatAnswer :: "jsstring \<Rightarrow> node" where
  "formatAnswer text =
     (if text = [] then Text []
      else if str_includes text (js ''<'') \<and> str_includes text (js ''>'') \<and>
              (str_includes text (js ''<p>'') \<or> str_includes text (js ''<strong>'') \<or>
               str_includes text (js ''<em>'') \<or> str_includes text (js ''<br>''))
      then DivInnerHTML ProseHtml text
      else Div PreWrapText [Text text])"

text \<open>The markup a node hands to the browser unescaped, and the text it shows escaped.\<close>

fun rawHtml :: "node \<Rightarrow> jsstring list" where
  "rawHtml (Text s) = []"
| "rawHtml (Div c ns) = concat (map rawHtml ns)"
| "rawHtml (DivInnerHTML c h) = [h]"

fun textContent :: "node \<Rightarrow> jsstring" where
  "textContent (Text s) = s"
| "textContent (Div c ns) = concat (map textContent ns)"
| "textContent (DivInnerHTML c h) = []"

section \<open>Payload types: types.ts\<close>

text \<open>
  An interface becomes a record, an optional field an \<open>option\<close>, \<open>number\<close> a real
  (the payloads only carry numbers, nothing here rounds them) and \<open>any\<close> a JSON value.
  Field names are the source's, except where two interfaces share one or the name is
  taken in Isabelle: \<open>id\<close> of \<open>Source\<close> is \<open>source_id\<close>, \<open>section\<close> is
  \<open>source_section\<close>, \<open>question\<close> of \<open>QueryResponse\<close> is \<open>echoed_question\<close>, the
  fields of \<open>IngestResponse\<close> and of its metadata start with \<open>ingest_\<close> and
  \<open>meta_\<close>, and \<open>model\<close> of the generator statistics is \<open>generator_model\<close>.
\<close>

type_synonym number = real

datatype json =
    JNull
  | JBool bool
  | JNumber number
  | JString jsstring
  | JArray "json list"
  | JObject "(jsstring \<times> json) list"

record QueryRequest =
  question :: jsstring
  top_k :: "number option"
  use_reranking :: "bool option"

record Source =
  source_id :: jsstring
  title :: jsstring
  source :: jsstring
  source_section :: jsstring
  similarity :: number
  content_preview :: jsstring

record GenerationMetadata =
  model :: jsstring
  latency_seconds :: number
  tokens_used :: "number option"

record QueryMetadata =
  retrieval_method :: jsstring
  documents_retrieved :: number
  generation_metadata :: GenerationMetadata

record QueryResponse =
  status :: jsstring
  echoed_question :: jsstring
  answer :: "jsstring option"
  sources :: "Source list option"
  metadata :: "QueryMetadata option"
  error :: "jsstring option"

record IngestMetadata =
  meta_source :: jsstring
  meta_section :: jsstring
  meta_type :: jsstring
  meta_title :: jsstring
  meta_filename :: jsstring
  meta_upload_date :: "jsstring option"
  meta_file_size :: number

record IngestResponse =
  ingest_status :: jsstring
  ingest_document_id :: "jsstring option"
  ingest_title :: "jsstring option"
  ingest_chunks_created :: "number option"
  ingest_filename :: "jsstring option"
  ingest_metadata :: "IngestMetadata option"
  ingest_error :: "jsstring option"

record VectorStoreStats =
  total_documents :: number
  collection_name :: jsstring
  persist_directory :: jsstring

record RetrievalStats =
  vector_store_stats :: json
  embedding_model :: jsstring
  embedding_dimension :: number
  retrieval_methods :: "jsstring list"

record GeneratorStats =
  generator_model :: jsstring
  base_url :: jsstring
  api_type :: jsstring
  description :: jsstring

record PipelineConfig =
  chunk_size :: number
  chunk_overlap :: number
  top_k_results :: number
  max_tokens :: number
  temperature :: number

record SystemStats =
  vector_store :: VectorStoreStats
  retrieval :: RetrievalStats
  generator :: GeneratorStats
  pipeline_config :: PipelineConfig

section \<open>The HTTP client: api.ts\<close>

text \<open>
  \<open>axios.create\<close> is given four settings; the base URL is \<open>VITE_API_URL\<close> of the
  build environment, or \<open>/api\<close> when that is unset or empty.
\<close>

record AxiosConfig =
  baseURL :: jsstring
  timeout :: nat
  maxContentLength :: nat
  maxBodyLength :: nat

definition API_BASE_URL :: "jsstring option \<Rightarrow> jsstring" where
  "API_BASE_URL VITE_API_URL =
     (case VITE_API_URL of None \<Rightarrow> js ''/api'' | Some u \<Rightarrow> if u = [] then js ''/api'' else u)"

definition api :: "jsstring option \<Rightarrow> AxiosConfig" where
  "api VITE_API_URL =
     \<lparr> baseURL = API_BASE_URL VITE_API_URL,
       timeout = 300000,
       maxContentLength = 100 * 1024 * 1024,
       maxBodyLength = 100 * 1024 * 1024 \<rparr>"

text \<open>
  A request either resolves with the response body, which the client returns unchecked
  (\<open>response.data\<close>), or rejects (no connection, a timeout, a status outside 2xx).
\<close>

datatype 'a outcome = Fulfilled 'a | Rejected

text \<open>A selected file, as far as the component reads it: its name and its size in bytes.\<close>

record File =
  file_name :: jsstring
  file_size :: nat

text \<open>
  \<open>ragApi.ingestDocument\<close> builds the multipart form: the file always, and each of
  \<open>source\<close>, \<open>section\<close>, \<open>doc_type\<close> only when the argument is truthy (given and not
  the empty string).
\<close>

record IngestForm =
  form_file :: File
  form_source :: "jsstring option"
  form_section :: "jsstring option"
  form_doc_type :: "jsstring option"

definition truthy :: "jsstring option \<Rightarrow> jsstring option" where
  "truthy v = (case v of None \<Rightarrow> None | Some s \<Rightarrow> if s = [] then None else Some s)"

definition ingestDocument :: "File \<Rightarrow> jsstring option \<Rightarrow> jsstring option \<Rightarrow> jsstring option \<Rightarrow> IngestForm" where
  "ingestDocument file src sec docType =
     \<lparr> form_file = file, form_source = truthy src, form_section = truthy sec,
       form_doc_type = truthy docType \<rparr>"

section \<open>The query and upload handlers: QueryInterface.tsx\<close>

text \<open>
  What a handler does to the world outside the component state, in the order it does it:
  the parent's callbacks, the requests it sends, \<open>console.error\<close> and timers.
\<close>

datatype effect =
    OnLoading bool
  | PostQuery QueryRequest
  | OnQueryResult QueryResponse
  | PostIngest IngestForm
  | ConsoleError jsstring
  | SetTimeout nat
  | PreventDefault

text \<open>
  \<open>handleQuery\<close> reads the \<open>question\<close> state cell and writes no state of the component.
  \<open>post\<close> is the backend as seen through \<open>ragApi.query\<close>.
\<close>

definition handleQuery :: "(QueryRequest \<Rightarrow> QueryResponse outcome) \<Rightarrow> jsstring \<Rightarrow> effect list" where
  "handleQuery post question_cell =
     (if trim question_cell = [] then []
      else
        let request = \<lparr> question = trim question_cell, top_k = None, use_reranking = None \<rparr>
        in [OnLoading True, PostQuery request] @
           (case post request of
              Fulfilled result \<Rightarrow> [OnQueryResult result]
            | Rejected \<Rightarrow>
                [ConsoleError (js ''Query error:''),
                 OnQueryResult
                   \<lparr> status = js ''error'',
                     echoed_question = question_cell,
                     answer = None, sources = None, metadata = None,
                     error = Some (js ''Failed to process query. Please try again.'') \<rparr>]) @
           [OnLoading False])"

definition handleKeyPress ::
  "(QueryRequest \<Rightarrow> QueryResponse outcome) \<Rightarrow> jsstring \<Rightarrow> jsstring \<Rightarrow> bool \<Rightarrow> effect list" where
  "handleKeyPress post question_cell key shiftKey =
     (if key = js ''Enter'' \<and> \<not> shiftKey
      then PreventDefault # handleQuery post question_cell else [])"

fun requests_sent :: "effect list \<Rightarrow> QueryRequest list" where
  "requests_sent [] = []"
| "requests_sent (PostQuery r # es) = r # requests_sent es"
| "requests_sent (e # es) = requests_sent es"

fun results_reported :: "effect list \<Rightarrow> QueryResponse list" where
  "results_reported [] = []"
| "results_reported (OnQueryResult r # es) = r # results_reported es"
| "results_reported (e # es) = results_reported es"

fun uploads_sent :: "effect list \<Rightarrow> IngestForm list" where
  "uploads_sent [] = []"
| "uploads_sent (PostIngest f # es) = f # uploads_sent es"
| "uploads_sent (e # es) = uploads_sent es"

text \<open>A backend that cannot be reached: every request rejects.\<close>

definition unreachable :: "'a \<Rightarrow> 'b outcome" where
  "unreachable request = Rejected"

text \<open>
  The upload half of the component state (the \<open>useState\<close> cells beside \<open>question\<close>).
  While a request is under way the client reports progress into \<open>uploadProgress\<close>; every
  path of \<open>handleFileUpload\<close> overwrites that cell once the request has settled, so the
  handlers below give the state at that point.
\<close>

record UploadState =
  uploadFile :: "File option"
  uploadLoading :: bool
  uploadProgress :: nat
  uploadResult :: "IngestResponse option"
  fileSizeError :: "jsstring option"

definition MAX_FILE_SIZE :: nat where
  "MAX_FILE_SIZE = 100 * 1024 * 1024"

text \<open>
  \<open>(file.size / (1024 * 1024)).toFixed(1)\<close>.  A size is an integer below \<open>2^53\<close> and the
  divisor is \<open>2^20\<close>, so the quotient is exact; \<open>toFixed(1)\<close> takes the integer \<open>n\<close>
  nearest to ten times the quotient, the larger one on a tie, and prints it in decimal
  with a point before its last digit.
\<close>

definition digit :: "nat \<Rightarrow> code_unit" where
  "digit d = of_nat (48 + d)"

function decimal :: "nat \<Rightarrow> jsstring" where
  "decimal n = (if n < 10 then [digit n] else decimal (n div 10) @ [digit (n mod 10)])"
  by pat_completeness auto
termination
  by (relation "measure id") auto

declare decimal.simps [simp del]

definition megabytes_toFixed1 :: "nat \<Rightarrow> jsstring" where
  "megabytes_toFixed1 bytes =
     (let n = (20 * bytes + 1048576) div 2097152
      in decimal (n div 10) @ js ''.'' @ [digit (n mod 10)])"

definition handleFileUpload ::
  "(IngestForm \<Rightarrow> IngestResponse outcome) \<Rightarrow> UploadState \<Rightarrow> File option \<Rightarrow> UploadState \<times> effect list" where
  "handleFileUpload post st selectedFile =
     (case (case selectedFile of Some f \<Rightarrow> Some f | None \<Rightarrow> uploadFile st) of
        None \<Rightarrow> (st, [])
      | Some fileToUpload \<Rightarrow>
          let st1 = st\<lparr> uploadLoading := True, uploadProgress := 0, uploadResult := None \<rparr>;
              form = ingestDocument fileToUpload None None (Some (js ''uploaded''))
          in case post form of
               Fulfilled result \<Rightarrow>
                 if ingest_status result = js ''success''
                 then (st1\<lparr> uploadResult := Some result, uploadProgress := 100 \<rparr>,
                       [PostIngest form, SetTimeout 1500])
                 else (st1\<lparr> uploadResult := Some result, uploadLoading := False,
                            uploadProgress := 0 \<rparr>,
                       [PostIngest form])
             | Rejected \<Rightarrow>
                 (st1\<lparr> uploadResult := Some
                         \<lparr> ingest_status = js ''error'', ingest_document_id = None,
                           ingest_title = None, ingest_chunks_created = None,
                           ingest_filename = None, ingest_metadata = None,
                           ingest_error = Some (js ''Failed to upload document. Please try again.'') \<rparr>,
                       uploadLoading := False, uploadProgress := 0 \<rparr>,
                  [PostIngest form, ConsoleError (js ''Upload error:'')]))"

text \<open>The callback of the 1.5 second timer that a successful upload sets.\<close>

definition uploadTimerFired :: "UploadState \<Rightarrow> UploadState" where
  "uploadTimerFired st = st\<lparr> uploadLoading := False, uploadProgress := 0, fileSizeError := None \<rparr>"

definition handleFileSelect ::
  "(IngestForm \<Rightarrow> IngestResponse outcome) \<Rightarrow> UploadState \<Rightarrow> File option \<Rightarrow> UploadState \<times> effect list" where
  "handleFileSelect post st selected =
     (case selected of
        None \<Rightarrow> (st\<lparr> uploadFile := None, fileSizeError := None \<rparr>, [])
      | Some file \<Rightarrow>
          if file_size file > MAX_FILE_SIZE
          then (st\<lparr> fileSizeError := Some
                       (js ''File too large. Maximum size is 100MB. Selected file: '' @
                        megabytes_toFixed1 (file_size file) @ js ''MB''),
                     uploadFile := None \<rparr>,
                [])
          else handleFileUpload post
                 (st\<lparr> fileSizeError := None, uploadFile := Some file, uploadResult := None \<rparr>)
                 (Some file))"

section \<open>The statistics card: the \<open>SystemStats\<close> component\<close>

record StatsState =
  stats :: "SystemStats option"
  loading :: bool
  stats_error :: "jsstring option"

definition initialStatsState :: StatsState where
  "initialStatsState = \<lparr> stats = None, loading = True, stats_error = None \<rparr>"

text \<open>
  \<open>fetchStats\<close> with the outcome of \<open>GET /stats\<close>: the state once the \<open>finally\<close> block
  has run.
\<close>

definition fetchStats :: "SystemStats outcome \<Rightarrow> StatsState \<Rightarrow> StatsState" where
  "fetchStats got st =
     (case got of
        Fulfilled data \<Rightarrow> st\<lparr> stats_error := None, stats := Some data, loading := False \<rparr>
      | Rejected \<Rightarrow>
          st\<lparr> stats_error := Some (js ''Failed to load system statistics''), loading := False \<rparr>)"

text \<open>
  The card: a text is a sequence of strings and numbers, as JSX interleaves them; each
  tile has a title, a value on the right and a line below.
\<close>

datatype piece = Str jsstring | Num number

datatype tile = Tile jsstring "piece list" "piece list"

datatype stats_view = LoadingCard | ErrorCard jsstring | NoCard | StatsCard "tile list"

text \<open>\<open>s.split('/').pop()\<close>: what follows the last slash, or all of \<open>s\<close>.\<close>

definition split_slash_pop :: "jsstring \<Rightarrow> jsstring" where
  "split_slash_pop s = rev (takeWhile (\<lambda>c. c \<noteq> 0x2F) (rev s))"

definition SystemStats_view :: "StatsState \<Rightarrow> stats_view" where
  "SystemStats_view st =
     (if loading st then LoadingCard
      else case truthy (stats_error st) of
        Some e \<Rightarrow> ErrorCard e
      | None \<Rightarrow>
         (case stats st of
            None \<Rightarrow> NoCard
          | Some s \<Rightarrow>
              StatsCard
                [Tile (js ''Vector Database'')
                   [Num (total_documents (vector_store s)), Str (js '' docs'')]
                   [Str (collection_name (vector_store s))],
                 Tile (js ''Embeddings'')
                   [Num (embedding_dimension (retrieval s)), Str (js '' dims'')]
                   [Str (split_slash_pop (embedding_model (retrieval s)))],
                 Tile (js ''AI Model'')
                   [Num (max_tokens (pipeline_config s)), Str (js '' tokens'')]
                   [Str (js ''gpt-oss-20b '' @ [0xE2, 0x20AC, 0xA2] @ js '' MoE'')],
                 Tile (js ''Retrieval'')
                   [Str (js ''Top-K: ''), Num (top_k_results (pipeline_config s))]
                   [Num (chunk_size (pipeline_config s)), Str (js '' token chunks'')]]))"

section \<open>The retrieval pipeline behind the API\<close>

text \<open>
  The frontend talks to a backend (\<open>backend/rag/chunking.py\<close>, \<open>retriever.py\<close>,
  \<open>generator.py\<close>, \<open>pipeline.py\<close>) whose files are not among the sources.  Its
  chunker, vector index, retriever, prompt builder and query flow are modelled here from
  the specification, sections 4.2 and 4.4 to 4.7.  The tokenizer, the embedding model,
  the similarity metric, the reranker and the language model are parameters.
\<close>

subsection \<open>Chunker\<close>

text \<open>
  Modelled from the spec: the chunk of the data model (section 3) and the chunker's
  failure (section 4.2), whose source \<open>chunking.py\<close> is missing.  A chunk keeps a
  back-reference to its document, its ordinal position and its token span.
\<close>

datatype chunking_error = InvalidChunkingConfig

record 'tok Chunk =
  parent_document :: string
  ordinal :: nat
  span :: "'tok list"

text \<open>
  Modelled from the spec: the sliding window of the chunker (section 4.2), whose source
  \<open>chunking.py\<close> is missing.  A window of \<open>chunkSize\<close> tokens advances by
  \<open>chunkSize - overlap\<close> tokens until a window reaches the end of the text; that last
  window may be shorter, and an empty text gives no window.
\<close>

function windows :: "nat \<Rightarrow> nat \<Rightarrow> 'tok list \<Rightarrow> 'tok list list" where
  "windows chunkSize overlap toks =
     (if toks = [] \<or> chunkSize \<le> overlap then []
      else if length toks \<le> chunkSize then [toks]
      else take chunkSize toks # windows chunkSize overlap (drop (chunkSize - overlap) toks))"
  by pat_completeness auto
termination
  by (relation "measure (\<lambda>(chunkSize, overlap, toks). length toks)") auto

declare windows.simps [simp del]

text \<open>
  Modelled from the spec: the chunker's contract (section 4.2), whose source
  \<open>chunking.py\<close> is missing.  The normalized text is given as its token sequence;
  \<open>overlap \<ge> chunkSize\<close> fails with \<open>InvalidChunkingConfig\<close>; the chunks are numbered
  from 0 in order and point back to their document.
\<close>

definition chunk_text ::
  "string \<Rightarrow> nat \<Rightarrow> nat \<Rightarrow> 'tok list \<Rightarrow> chunking_error + 'tok Chunk list" where
  "chunk_text doc chunkSize overlap toks =
     (if overlap \<ge> chunkSize then Inl InvalidChunkingConfig
      else Inr (map (\<lambda>(i, w). \<lparr> parent_document = doc, ordinal = i, span = w \<rparr>)
                    (enumerate 0 (windows chunkSize overlap toks))))"

text \<open>
  Modelled from the spec: "the concatenation of chunks with overlaps removed" (sections 3
  and 8), for which the repository has no code: the first chunk whole, then every later
  chunk without its first \<open>overlap\<close> tokens.
\<close>

fun deoverlap :: "nat \<Rightarrow> 'tok list list \<Rightarrow> 'tok list" where
  "deoverlap overlap [] = []"
| "deoverlap overlap (c # cs) = c @ concat (map (drop overlap) cs)"

subsection \<open>Vector index and retriever\<close>

text \<open>
  Modelled from the spec: an entry of the vector index (section 3), whose source
  \<open>vector_store.py\<close> is missing: an embedding with the chunk it belongs to (the
  chunk carries its own copy of the document metadata).
\<close>

record ('c, 'v) IndexEntry =
  entry_embedding :: 'v
  entry_chunk :: 'c

text \<open>
  Modelled from the spec: ranking by a score, higher first, exact ties in the order of
  the input (sections 4.4 and 4.5), whose sources \<open>vector_store.py\<close> and
  \<open>retriever.py\<close> are missing.  An insertion sort: an element is put before the
  first one that does not score higher than it.
\<close>

fun insort_desc :: "('a \<Rightarrow> 's::linorder) \<Rightarrow> 'a \<Rightarrow> 'a list \<Rightarrow> 'a list" where
  "insort_desc f x [] = [x]"
| "insort_desc f x (y # ys) = (if f y \<le> f x then x # y # ys else y # insort_desc f x ys)"

definition rank_desc :: "('a \<Rightarrow> 's::linorder) \<Rightarrow> 'a list \<Rightarrow> 'a list" where
  "rank_desc f xs = foldr (insort_desc f) xs []"

text \<open>
  Modelled from the spec: \<open>query(vector, k)\<close> of the vector index (section 4.4), whose
  source \<open>vector_store.py\<close> is missing.  The index is the list of its entries in
  insertion order; the answer is the \<open>k\<close> nearest entries, each with its similarity
  to the query vector.
\<close>

definition index_query ::
  "('v \<Rightarrow> 'v \<Rightarrow> 's::linorder) \<Rightarrow> ('c, 'v) IndexEntry list \<Rightarrow> 'v \<Rightarrow> nat \<Rightarrow> ('c \<times> 's) list" where
  "index_query sim idx qv k =
     take k (rank_desc snd (map (\<lambda>e. (entry_chunk e, sim qv (entry_embedding e))) idx))"

text \<open>
  Modelled from the spec: the failures a query can end with (sections 4.3, 4.6 and 7),
  the prompt handed to the language model (section 4.6) and the calls the flow makes to
  its collaborators, whose sources \<open>pipeline.py\<close> and \<open>generator.py\<close> are missing.
  The grounding of a prompt is the numbered excerpts, or \<open>None\<close> for the statement
  that no grounding context was found.
\<close>

datatype query_error =
    InputError
  | EmbeddingServiceError
  | GenerationTimeout
  | GenerationServiceError
  | ContextBudgetExceeded

record 'c Prompt =
  instructions :: string
  grounding :: "(nat \<times> 'c) list option"
  prompt_question :: string

datatype ('c, 'v) call =
    EmbedCall string
  | IndexQueryCall 'v nat
  | GenerateCall "'c Prompt"

text \<open>
  Modelled from the spec: the retriever (section 4.5), whose source \<open>retriever.py\<close> is
  missing.  It embeds the question, asks the index for \<open>topK\<close> candidates, or for
  \<open>topK * rerank_factor\<close> when reranking, and then keeps the \<open>topK\<close> best by rerank
  score, ties in similarity order.  An embedding failure is passed on unchanged.  The
  second component lists the calls made to the embedding generator and the index.
\<close>

definition retrieve ::
  "(string \<Rightarrow> query_error + 'v) \<Rightarrow> ('v \<Rightarrow> 'v \<Rightarrow> 's::linorder) \<Rightarrow> (string \<Rightarrow> 'c \<Rightarrow> 's) \<Rightarrow> nat \<Rightarrow>
   ('c, 'v) IndexEntry list \<Rightarrow> string \<Rightarrow> nat \<Rightarrow> bool \<Rightarrow>
   (query_error + ('c \<times> 's) list) \<times> ('c, 'v) call list" where
  "retrieve embed_text sim rerank_score rerank_factor idx q topK useReranking =
     (case embed_text q of
        Inl e \<Rightarrow> (Inl e, [EmbedCall q])
      | Inr qv \<Rightarrow>
          if useReranking
          then (Inr (take topK (rank_desc (\<lambda>(c, s). rerank_score q c)
                                   (index_query sim idx qv (topK * rerank_factor)))),
                [EmbedCall q, IndexQueryCall qv (topK * rerank_factor)])
          else (Inr (index_query sim idx qv topK), [EmbedCall q, IndexQueryCall qv topK]))"

subsection \<open>Generator prompt and query flow\<close>

text \<open>
  Modelled from the spec: the prompt of the generator (sections 4.6 and 4.7), whose
  source \<open>generator.py\<close> is missing: system instructions, the sources numbered from 1
  in rank order, and the question.  With no source the prompt carries, in place of the
  excerpts, the statement that no grounding context was found (\<open>None\<close>).  Fitting the
  context window is left to the language model parameter, which may answer
  \<open>ContextBudgetExceeded\<close>.
\<close>

definition build_prompt :: "string \<Rightarrow> string \<Rightarrow> 'c list \<Rightarrow> 'c Prompt" where
  "build_prompt instr q chunks =
     \<lparr> instructions = instr,
       grounding = (if chunks = [] then None else Some (enumerate 1 chunks)),
       prompt_question = q \<rparr>"

text \<open>
  Modelled from the spec: what the language model returns (answer text, model
  identifier, latency, token usage) and the response envelope (sections 3 and 6), whose
  source \<open>pipeline.py\<close> is missing.
\<close>

record Generation =
  generated_text :: string
  generation_model :: string
  generation_latency :: nat
  generation_tokens :: nat

datatype envelope_status = Success | Failed query_error

record ('c, 's) Envelope =
  envelope_status :: envelope_status
  envelope_question :: string
  envelope_answer :: "string option"
  envelope_sources :: "('c \<times> 's) list"
  envelope_generation :: "Generation option"

text \<open>
  Modelled from the spec: the query flow of the orchestrator (sections 4.7 and 7), whose
  source \<open>pipeline.py\<close> is missing.  An empty question is an \<open>InputError\<close> before
  anything is called; a failed step ends the flow with that step's error; generation
  runs on whatever retrieval returned, also on nothing.  The second component lists the
  calls made to the collaborators, in order.
\<close>

definition pipeline_query ::
  "(string \<Rightarrow> query_error + 'v) \<Rightarrow> ('v \<Rightarrow> 'v \<Rightarrow> 's::linorder) \<Rightarrow> (string \<Rightarrow> 'c \<Rightarrow> 's) \<Rightarrow> nat \<Rightarrow>
   ('c Prompt \<Rightarrow> query_error + Generation) \<Rightarrow> string \<Rightarrow>
   ('c, 'v) IndexEntry list \<Rightarrow> string \<Rightarrow> nat \<Rightarrow> bool \<Rightarrow>
   ('c, 's) Envelope \<times> ('c, 'v) call list" where
  "pipeline_query embed_text sim rerank_score rerank_factor generate instr idx q topK useReranking =
     (if q = []
      then (\<lparr> envelope_status = Failed InputError, envelope_question = q,
               envelope_answer = None, envelope_sources = [], envelope_generation = None \<rparr>, [])
      else
        case retrieve embed_text sim rerank_score rerank_factor idx q topK useReranking of
          (Inl e, calls) \<Rightarrow>
            (\<lparr> envelope_status = Failed e, envelope_question = q,
               envelope_answer = None, envelope_sources = [], envelope_generation = None \<rparr>,
             calls)
        | (Inr found, calls) \<Rightarrow>
            let prompt = build_prompt instr q (map fst found)
            in case generate prompt of
                 Inl e \<Rightarrow>
                   (\<lparr> envelope_status = Failed e, envelope_question = q,
                      envelope_answer = None, envelope_sources = found,
                      envelope_generation = None \<rparr>,
                    calls @ [GenerateCall prompt])
               | Inr g \<Rightarrow>
                   (\<lparr> envelope_status = Success, envelope_question = q,
                      envelope_answer = Some (generated_text g), envelope_sources = found,
                      envelope_generation = Some g \<rparr>,
                    calls @ [GenerateCall prompt]))"

section \<open>The claimed shape of a response, and concrete instances\<close>

text \<open>
  The two shapes a \<open>QueryResponse\<close> is said to have: an answer with its sources and
  generation metadata including token usage, or an error description in place of answer
  and sources.
\<close>

definition carries_answer_payload :: "QueryResponse \<Rightarrow> bool" where
  "carries_answer_payload r \<longleftrightarrow>
     answer r \<noteq> None \<and> sources r \<noteq> None \<and>
     (case metadata r of None \<Rightarrow> False
      | Some m \<Rightarrow> tokens_used (generation_metadata m) \<noteq> None)"

definition carries_error_payload :: "QueryResponse \<Rightarrow> bool" where
  "carries_error_payload r \<longleftrightarrow> error r \<noteq> None \<and> answer r = None \<and> sources r = None"

text \<open>A response with the two required fields only, and a backend that returns it.\<close>

definition bareResponse :: QueryResponse where
  "bareResponse =
     \<lparr> status = js ''success'', echoed_question = js ''q'', answer = None, sources = None,
       metadata = None, error = None \<rparr>"

definition always :: "'b \<Rightarrow> 'a \<Rightarrow> 'b outcome" where
  "always r request = Fulfilled r"

definition initialUploadState :: UploadState where
  "initialUploadState =
     \<lparr> uploadFile = None, uploadLoading = False, uploadProgress = 0, uploadResult = None,
       fileSizeError = None \<rparr>"

text \<open>A file of 150 megabytes.\<close>

definition bigFile :: File where
  "bigFile = \<lparr> file_name = js ''act.pdf'', file_size = 157286400 \<rparr>"

definition sampleStats :: SystemStats where
  "sampleStats =
     \<lparr> vector_store =
         \<lparr> total_documents = 42, collection_name = js ''immigration_docs'',
           persist_directory = js ''/app/data/chroma_db'' \<rparr>,
       retrieval =
         \<lparr> vector_store_stats = JNull,
           embedding_model = js ''sentence-transformers/all-MiniLM-L6-v2'',
           embedding_dimension = 384, retrieval_methods = [js ''semantic''] \<rparr>,
       generator =
         \<lparr> generator_model = js ''openai/gpt-oss-20b'',
           base_url = js ''https://router.huggingface.co/v1'',
           api_type = js ''huggingface'', description = js ''gpt-oss-20b'' \<rparr>,
       pipeline_config =
         \<lparr> chunk_size = 512, chunk_overlap = 50, top_k_results = 5, max_tokens = 1024,
           temperature = 0 \<rparr> \<rparr>"

text \<open>
  Stand-ins for the parameters of the pipeline: the embedding of a question is its
  length, two embeddings are the more similar the closer they are, a chunk reranks by
  its length, and the language model says whether it was given sources.
\<close>

definition stub_embed :: "string \<Rightarrow> query_error + nat" where
  "stub_embed q = Inr (length q)"

definition stub_sim :: "nat \<Rightarrow> nat \<Rightarrow> int" where
  "stub_sim a b = - \<bar>int a - int b\<bar>"

definition stub_rerank :: "string \<Rightarrow> string \<Rightarrow> int" where
  "stub_rerank q c = int (length c)"

definition stub_generate :: "string Prompt \<Rightarrow> query_error + Generation" where
  "stub_generate p =
     Inr \<lparr> generated_text = (case grounding p of None \<Rightarrow> ''no context'' | Some ns \<Rightarrow> ''grounded''),
           generation_model = ''stub'', generation_latency = 0, generation_tokens = 0 \<rparr>"

definition small_index :: "(string, nat) IndexEntry list" where
  "small_index =
     [\<lparr> entry_embedding = 9, entry_chunk = ''partner visa'' \<rparr>,
      \<lparr> entry_embedding = 4, entry_chunk = ''student'' \<rparr>,
      \<lparr> entry_embedding = 2, entry_chunk = ''fees'' \<rparr>,
      \<lparr> entry_embedding = 5, entry_chunk = ''character test'' \<rparr>]"

section \<open>Properties of the string primitives\<close>

lemma includes_iff: "str_includes s p \<longleftrightarrow> (\<exists>a b. s = a @ p @ b)"
proof (induction s)
  case Nil
  then show ?case by auto
next
  case (Cons x xs)
  show ?case
  proof
    assume "str_includes (x # xs) p"
    then consider "take (length p) (x # xs) = p" | "str_includes xs p" by auto
    then show "\<exists>a b. x # xs = a @ p @ b"
    proof cases
      case 1
      then have "x # xs = [] @ p @ drop (length p) (x # xs)"
        by (metis append_Nil append_take_drop_id)
      then show ?thesis by blast
    next
      case 2
      then obtain a b where "xs = a @ p @ b" using Cons.IH by blast
      then have "x # xs = (x # a) @ p @ b" by simp
      then show ?thesis by blast
    qed
  next
    assume "\<exists>a b. x # xs = a @ p @ b"
    then obtain a b where ab: "x # xs = a @ p @ b" by blast
    show "str_includes (x # xs) p"
    proof (cases a)
      case Nil
      with ab have "take (length p) (x # xs) = p" by simp
      then show ?thesis by simp
    next
      case (Cons y ys)
      with ab have "xs = ys @ p @ b" by simp
      then have "str_includes xs p" using Cons.IH by blast
      then show ?thesis by simp
    qed
  qed
qed

lemma includes_Nil_char [simp]: "\<not> str_includes [] (c # p)"
  by simp

lemma trim_empty: "trim [] = []"
  by (simp add: trim_def)

section \<open>Properties of the query handler\<close>

text \<open>
  A question that is empty, or white space only, is dropped at once by \<open>handleQuery\<close>:
  no loading flag is set, no request leaves the browser and nothing is reported to the
  parent.  The same holds when the handler is reached through the Enter key.
\<close>

lemma handleQuery_blank_sends_nothing:
  "trim q = [] \<Longrightarrow>
     handleQuery post q = [] \<and>
     requests_sent (handleKeyPress post q key shiftKey) = [] \<and>
     results_reported (handleKeyPress post q key shiftKey) = []"
  by (simp add: handleQuery_def handleKeyPress_def)

lemma handleQuery_requests:
  "requests_sent (handleQuery post q) =
     (if trim q = [] then [] else [\<lparr> question = trim q, top_k = None, use_reranking = None \<rparr>])"
  by (cases "post \<lparr> question = trim q, top_k = None, use_reranking = None \<rparr>")
     (simp_all add: handleQuery_def Let_def)

text \<open>
  C8.  The specification has \<open>handleQuery\<close> send, for every non-empty question, a request
  with the trimmed question only.  The guard of the handler tests the trimmed question,
  so this holds for every question that is not blank (not empty once trimmed): exactly
  one request is sent; it holds the trimmed question and neither \<open>top_k\<close> nor
  \<open>use_reranking\<close>, so the backend's defaults apply.  The Enter key without Shift does
  the same and any other key sends nothing.
\<close>

theorem handleQuery_sends_trimmed_question_only:
  "trim q \<noteq> [] \<Longrightarrow>
     requests_sent (handleQuery post q) =
       [\<lparr> question = trim q, top_k = None, use_reranking = None \<rparr>] \<and>
     requests_sent (handleKeyPress post q key shiftKey) =
       (if key = js ''Enter'' \<and> \<not> shiftKey
        then [\<lparr> question = trim q, top_k = None, use_reranking = None \<rparr>] else [])"
  by (cases "post \<lparr> question = trim q, top_k = None, use_reranking = None \<rparr>")
     (simp_all add: handleQuery_def handleKeyPress_def Let_def)

theorem handleQuery_sends_trimmed_question_only_witness:
  "trim (js '' What is a partner visa?  '') \<noteq> [] \<and>
   requests_sent (handleQuery unreachable (js '' What is a partner visa?  '')) =
     [\<lparr> question = js ''What is a partner visa?'', top_k = None, use_reranking = None \<rparr>]"
  using handleQuery_sends_trimmed_question_only [of "js '' What is a partner visa?  ''" unreachable]
  by (simp add: trim_def js_def isWhiteSpace_def)

text \<open>
  A question of one space is not empty, and for it no request is sent, not even to a
  backend that would answer.
\<close>

theorem handleQuery_space_question_sends_nothing:
  "js '' '' \<noteq> [] \<and>
   requests_sent (handleQuery (always bareResponse) (js '' '')) = [] \<and>
   handleQuery (always bareResponse) (js '' '') = []"
  by (simp add: handleQuery_def trim_def js_def isWhiteSpace_def)

text \<open>
  C6.  The specification has every \<open>QueryResponse\<close> carry a status and the question,
  and either an answer with sources and generation metadata (model, latency, token
  usage) or an error description in place of answer and sources.  The interface requires the status
  and the question only; the other four fields, and the token usage, are optional each
  on its own.  What the frontend guarantees: for a question that is not blank it reports
  exactly one response, the backend's as received, or, when the request fails, one it
  builds itself with status \<open>error\<close>, the question as typed, an error description and
  no answer, sources or metadata.
\<close>

theorem handleQuery_reports_response:
  "trim q \<noteq> [] \<Longrightarrow>
     results_reported (handleQuery post q) =
       [case post \<lparr> question = trim q, top_k = None, use_reranking = None \<rparr> of
          Fulfilled result \<Rightarrow> result
        | Rejected \<Rightarrow>
            \<lparr> status = js ''error'', echoed_question = q, answer = None, sources = None,
              metadata = None,
              error = Some (js ''Failed to process query. Please try again.'') \<rparr>] \<and>
     carries_error_payload
       \<lparr> status = js ''error'', echoed_question = q, answer = None, sources = None,
         metadata = None,
         error = Some (js ''Failed to process query. Please try again.'') \<rparr>"
  by (cases "post \<lparr> question = trim q, top_k = None, use_reranking = None \<rparr>")
     (simp_all add: handleQuery_def Let_def carries_error_payload_def)

theorem handleQuery_reports_response_witness:
  "trim (js ''visa?'') \<noteq> [] \<and>
   results_reported (handleQuery unreachable (js ''visa?'')) =
     [\<lparr> status = js ''error'', echoed_question = js ''visa?'', answer = None, sources = None,
        metadata = None,
        error = Some (js ''Failed to process query. Please try again.'') \<rparr>] \<and>
   results_reported (handleQuery (always bareResponse) (js ''visa?'')) = [bareResponse]"
  using handleQuery_reports_response [of "js ''visa?''" unreachable]
        handleQuery_reports_response [of "js ''visa?''" "always bareResponse"]
  by (simp add: trim_def js_def isWhiteSpace_def unreachable_def always_def)

text \<open>
  A response that the interface admits and that has neither of the two shapes: status
  and question, nothing else.
\<close>

theorem QueryResponse_neither_payload:
  "\<not> carries_answer_payload bareResponse \<and> \<not> carries_error_payload bareResponse"
  by (simp add: carries_answer_payload_def carries_error_payload_def bareResponse_def)

section \<open>Properties of the upload handler\<close>

text \<open>
  C9.  A selected file of more than 100 megabytes (\<open>100 * 1024 * 1024\<close> bytes) is
  turned away in the browser: \<open>handleFileSelect\<close> sets the file-size message, clears
  the selected file and does nothing else, so no ingest request is made.  The HTTP
  client's \<open>maxBodyLength\<close> is the same 100 megabytes.
\<close>

theorem handleFileSelect_too_large:
  "file_size f > MAX_FILE_SIZE \<Longrightarrow>
     handleFileSelect post st (Some f) =
       (st\<lparr> fileSizeError := Some
               (js ''File too large. Maximum size is 100MB. Selected file: '' @
                megabytes_toFixed1 (file_size f) @ js ''MB''),
             uploadFile := None \<rparr>, []) \<and>
     fileSizeError (fst (handleFileSelect post st (Some f))) \<noteq> None \<and>
     uploadFile (fst (handleFileSelect post st (Some f))) = None \<and>
     uploads_sent (snd (handleFileSelect post st (Some f))) = [] \<and>
     maxBodyLength (api env) = MAX_FILE_SIZE \<and> MAX_FILE_SIZE = 104857600"
  by (simp add: handleFileSelect_def api_def MAX_FILE_SIZE_def)

lemma megabytes_toFixed1_150: "megabytes_toFixed1 157286400 = js ''150.0''"
  by (simp add: megabytes_toFixed1_def decimal.simps digit_def js_def)

theorem handleFileSelect_too_large_witness:
  "file_size bigFile > MAX_FILE_SIZE \<and>
   fileSizeError (fst (handleFileSelect unreachable initialUploadState (Some bigFile))) =
     Some (js ''File too large. Maximum size is 100MB. Selected file: 150.0MB'') \<and>
   uploadFile (fst (handleFileSelect unreachable initialUploadState (Some bigFile))) = None \<and>
   snd (handleFileSelect unreachable initialUploadState (Some bigFile)) = []"
  using handleFileSelect_too_large [of bigFile unreachable initialUploadState]
  by (simp add: bigFile_def MAX_FILE_SIZE_def megabytes_toFixed1_def decimal.simps digit_def js_def)

section \<open>Properties of the statistics card\<close>

text \<open>
  C7.  The statistics payload exposes the document count, the embedding dimension, the
  chunk size and overlap, the default top-k and the maximum generation tokens: once
  \<open>GET /stats\<close> has resolved, the component holds all six as received, and its card
  shows the document count, the dimension, the maximum tokens, the top-k and the chunk
  size.
\<close>

theorem stats_surface:
  "stats (fetchStats (Fulfilled s) st) = Some s \<and>
   map_option (\<lambda>x. (total_documents (vector_store x), embedding_dimension (retrieval x),
                     chunk_size (pipeline_config x), chunk_overlap (pipeline_config x),
                     top_k_results (pipeline_config x), max_tokens (pipeline_config x)))
     (stats (fetchStats (Fulfilled s) st)) =
   Some (total_documents (vector_store s), embedding_dimension (retrieval s),
         chunk_size (pipeline_config s), chunk_overlap (pipeline_config s),
         top_k_results (pipeline_config s), max_tokens (pipeline_config s)) \<and>
   SystemStats_view (fetchStats (Fulfilled s) st) =
     StatsCard
       [Tile (js ''Vector Database'')
          [Num (total_documents (vector_store s)), Str (js '' docs'')]
          [Str (collection_name (vector_store s))],
        Tile (js ''Embeddings'')
          [Num (embedding_dimension (retrieval s)), Str (js '' dims'')]
          [Str (split_slash_pop (embedding_model (retrieval s)))],
        Tile (js ''AI Model'')
          [Num (max_tokens (pipeline_config s)), Str (js '' tokens'')]
          [Str (js ''gpt-oss-20b '' @ [0xE2, 0x20AC, 0xA2] @ js '' MoE'')],
        Tile (js ''Retrieval'')
          [Str (js ''Top-K: ''), Num (top_k_results (pipeline_config s))]
          [Num (chunk_size (pipeline_config s)), Str (js '' token chunks'')]]"
  by (simp add: fetchStats_def SystemStats_view_def truthy_def)

theorem stats_surface_witness:
  "map_option (\<lambda>x. (total_documents (vector_store x), embedding_dimension (retrieval x),
                     chunk_size (pipeline_config x), chunk_overlap (pipeline_config x),
                     top_k_results (pipeline_config x), max_tokens (pipeline_config x)))
     (stats (fetchStats (Fulfilled sampleStats) initialStatsState)) = Some (42, 384, 512, 50, 5, 1024) \<and>
   SystemStats_view (fetchStats (Fulfilled sampleStats) initialStatsState) =
     StatsCard
       [Tile (js ''Vector Database'') [Num 42, Str (js '' docs'')] [Str (js ''immigration_docs'')],
        Tile (js ''Embeddings'') [Num 384, Str (js '' dims'')] [Str (js ''all-MiniLM-L6-v2'')],
        Tile (js ''AI Model'') [Num 1024, Str (js '' tokens'')]
          [Str (js ''gpt-oss-20b '' @ [0xE2, 0x20AC, 0xA2] @ js '' MoE'')],
        Tile (js ''Retrieval'') [Str (js ''Top-K: ''), Num 5] [Num 512, Str (js '' token chunks'')]]"
  using stats_surface [of sampleStats initialStatsState]
  by (simp add: sampleStats_def split_slash_pop_def js_def)

section \<open>Properties of \<open>formatAnswer\<close>\<close>

text \<open>
  C10.  An answer that contains \<open><\<close> and \<open>>\<close> together with one of \<open><p>\<close>,
  \<open><strong>\<close>, \<open><em>\<close>, \<open><br>\<close> is handed to \<open>dangerouslySetInnerHTML\<close> exactly as
  it came, with nothing escaped or removed.  Every other answer is rendered as plain
  text: no markup is injected and the text shown is the answer itself (the empty
  answer is returned as the empty string, any other inside the pre-wrap \<open>div\<close>).
\<close>

theorem formatAnswer_html_or_plain_text:
  "(str_includes text (js ''<'') \<and> str_includes text (js ''>'') \<and>
      (str_includes text (js ''<p>'') \<or> str_includes text (js ''<strong>'') \<or>
       str_includes text (js ''<em>'') \<or> str_includes text (js ''<br>''))
    \<longrightarrow> formatAnswer text = DivInnerHTML ProseHtml text) \<and>
   (\<not> (str_includes text (js ''<'') \<and> str_includes text (js ''>'') \<and>
      (str_includes text (js ''<p>'') \<or> str_includes text (js ''<strong>'') \<or>
       str_includes text (js ''<em>'') \<or> str_includes text (js ''<br>'')))
    \<longrightarrow> formatAnswer text = (if text = [] then Text text else Div PreWrapText [Text text]) \<and>
        rawHtml (formatAnswer text) = [] \<and> textContent (formatAnswer text) = text)"
proof (cases "text = []")
  case True
  then show ?thesis by (simp add: formatAnswer_def js_def)
next
  case False
  then show ?thesis by (simp add: formatAnswer_def)
qed

theorem formatAnswer_html_or_plain_text_witness:
  "formatAnswer (js ''<p>Visa</p><script>x</script>'')
     = DivInnerHTML ProseHtml (js ''<p>Visa</p><script>x</script>'') \<and>
   formatAnswer (js ''a <b> c'') = Div PreWrapText [Text (js ''a <b> c'')] \<and>
   rawHtml (formatAnswer (js ''a <b> c'')) = [] \<and>
   textContent (formatAnswer (js ''a <b> c'')) = js ''a <b> c''"
  using formatAnswer_html_or_plain_text [of "js ''<p>Visa</p><script>x</script>''"]
        formatAnswer_html_or_plain_text [of "js ''a <b> c''"]
  by (simp add: js_def)

section \<open>Properties of the chunker\<close>

lemma windows_short:
  "toks \<noteq> [] \<Longrightarrow> overlap < chunkSize \<Longrightarrow> length toks \<le> chunkSize \<Longrightarrow>
     windows chunkSize overlap toks = [toks]"
  by (subst windows.simps) simp

lemma windows_long:
  "overlap < chunkSize \<Longrightarrow> chunkSize < length toks \<Longrightarrow>
     windows chunkSize overlap toks =
       take chunkSize toks # windows chunkSize overlap (drop (chunkSize - overlap) toks)"
  by (subst windows.simps) auto

lemma windows_Nil: "windows chunkSize overlap [] = []"
  by (subst windows.simps) simp

lemma drop_take_drop:
  assumes "overlap < chunkSize" "chunkSize < length toks"
  shows "drop overlap (take chunkSize toks) @ drop chunkSize toks = drop overlap (toks :: 'a list)"
proof -
  have "drop overlap toks = drop overlap (take chunkSize toks @ drop chunkSize toks)"
    by simp
  also have "\<dots> = drop overlap (take chunkSize toks) @
                   drop (overlap - length (take chunkSize toks)) (drop chunkSize toks)"
    by (rule drop_append)
  also have "overlap - length (take chunkSize toks) = 0"
    using assms by simp
  finally show ?thesis by simp
qed

lemma windows_drop_overlap:
  "overlap < chunkSize \<Longrightarrow>
     concat (map (drop overlap) (windows chunkSize overlap toks)) = drop overlap toks"
proof (induction chunkSize overlap toks rule: windows.induct)
  case (1 chunkSize overlap toks)
  show ?case
  proof (cases "toks = []")
    case True
    then show ?thesis by (simp add: windows_Nil)
  next
    case nonempty: False
    show ?thesis
    proof (cases "length toks \<le> chunkSize")
      case True
      with nonempty "1.prems" show ?thesis by (simp add: windows_short)
    next
      case False
      with nonempty "1.prems" have IH:
        "concat (map (drop overlap) (windows chunkSize overlap (drop (chunkSize - overlap) toks)))
           = drop overlap (drop (chunkSize - overlap) toks)"
        using "1.IH" by simp
      have long: "chunkSize < length toks" using False by simp
      have "drop overlap (drop (chunkSize - overlap) toks) = drop chunkSize toks"
        using "1.prems" by simp
      with IH show ?thesis
        using windows_long [OF "1.prems" long] drop_take_drop [OF "1.prems" long] by simp
    qed
  qed
qed

lemma deoverlap_windows:
  assumes lt: "overlap < chunkSize"
  shows "deoverlap overlap (windows chunkSize overlap toks) = toks"
proof (cases "toks = []")
  case True
  then show ?thesis by (simp add: windows_Nil)
next
  case nonempty: False
  show ?thesis
  proof (cases "length toks \<le> chunkSize")
    case True
    with nonempty lt show ?thesis by (simp add: windows_short)
  next
    case False
    then have long: "chunkSize < length toks" by simp
    have "concat (map (drop overlap) (windows chunkSize overlap (drop (chunkSize - overlap) toks)))
            = drop overlap (drop (chunkSize - overlap) toks)"
      using lt by (rule windows_drop_overlap)
    also have "\<dots> = drop chunkSize toks" using lt by simp
    finally show ?thesis using windows_long [OF lt long] by simp
  qed
qed

lemma spans_of_numbered:
  "map (span \<circ> (\<lambda>(i, w). \<lparr> parent_document = doc, ordinal = i, span = w \<rparr>)) (enumerate n ws) = ws"
  by (induction ws arbitrary: n) simp_all

text \<open>
  C2.  For every text and every configuration with \<open>overlap < chunkSize\<close>, chunking
  succeeds, and the chunks put end to end, each later one without its first \<open>overlap\<close>
  tokens, are the text again.
\<close>

theorem chunks_reconstruct_text:
  "overlap < chunkSize \<Longrightarrow>
     \<exists>cs. chunk_text doc chunkSize overlap T = Inr cs \<and> deoverlap overlap (map span cs) = T"
  by (simp add: chunk_text_def spans_of_numbered deoverlap_windows)

theorem chunks_reconstruct_text_witness:
  "(2::nat) < 5 \<and>
   chunk_text ''d'' 5 2 [1, 2, 3, 4, 5, 6, 7, 8, 9 :: nat] =
     Inr [\<lparr> parent_document = ''d'', ordinal = 0, span = [1, 2, 3, 4, 5] \<rparr>,
          \<lparr> parent_document = ''d'', ordinal = 1, span = [4, 5, 6, 7, 8] \<rparr>,
          \<lparr> parent_document = ''d'', ordinal = 2, span = [7, 8, 9] \<rparr>] \<and>
   deoverlap 2 [[1, 2, 3, 4, 5], [4, 5, 6, 7, 8], [7, 8, 9 :: nat]] = [1, 2, 3, 4, 5, 6, 7, 8, 9]"
  using chunks_reconstruct_text [of 2 5 "''d''" "[1, 2, 3, 4, 5, 6, 7, 8, 9 :: nat]"]
  by (simp add: chunk_text_def windows.simps enumerate_eq_zip)

text \<open>
  C1.  A text of 1200 tokens, chunked with size 512 and overlap 50, gives exactly three
  chunks, of 512, 512 and at most 512 tokens (276); the first 50 tokens of the second are
  the last 50 of the first; the windows start 462 tokens apart.
\<close>

theorem scenario_A:
  assumes "length T = 1200"
  shows "\<exists>c1 c2 c3. chunk_text doc 512 50 T = Inr [c1, c2, c3] \<and>
           length (span c1) = 512 \<and> length (span c2) = 512 \<and> length (span c3) \<le> 512 \<and>
           length (span c3) = 276 \<and>
           take 50 (span c2) = drop (512 - 50) (span c1) \<and>
           span c1 = take 512 T \<and> span c2 = take 512 (drop (512 - 50) T) \<and>
           span c3 = drop (2 * (512 - 50)) T"
proof -
  have w1: "windows 512 50 T = take 512 T # windows 512 50 (drop 462 T)"
    using windows_long [of 50 512 T] assms by simp
  have w2: "windows 512 50 (drop 462 T) = take 512 (drop 462 T) # windows 512 50 (drop 924 T)"
    using windows_long [of 50 512 "drop 462 T"] assms by simp
  have w3: "windows 512 50 (drop 924 T) = [drop 924 T]"
    using windows_short [of "drop 924 T" 50 512] assms by auto
  have ov: "take 50 (take 512 (drop 462 T)) = drop 462 (take 512 T)"
    by (simp add: drop_take)
  show ?thesis
    using assms ov by (simp add: chunk_text_def w1 w2 w3 enumerate_eq_zip)
qed

theorem scenario_A_witness:
  "length (replicate 1200 (0::nat)) = 1200 \<and>
   (\<exists>c1 c2 c3. chunk_text ''doc'' 512 50 (replicate 1200 (0::nat)) = Inr [c1, c2, c3] \<and>
           length (span c1) = 512 \<and> length (span c2) = 512 \<and> length (span c3) \<le> 512 \<and>
           take 50 (span c2) = drop (512 - 50) (span c1))"
  using scenario_A [of "replicate 1200 (0::nat)" "''doc''"]
  by auto

section \<open>Properties of the retriever and of the query flow\<close>

lemma set_insort_desc: "set (insort_desc f x ys) = insert x (set ys)"
  by (induction ys) auto

lemma sorted_insort_desc:
  "sorted_wrt (\<ge>) (map f ys) \<Longrightarrow> sorted_wrt (\<ge>) (map f (insort_desc f x ys))"
proof (induction ys)
  case Nil
  then show ?case by simp
next
  case (Cons y ys)
  show ?case
  proof (cases "f y \<le> f x")
    case True
    have "\<forall>z \<in> set ys. f z \<le> f x"
      using Cons.prems True by auto
    with True Cons.prems show ?thesis by simp
  next
    case False
    then have "f x \<le> f y" by simp
    with False Cons show ?thesis by (auto simp: set_insort_desc)
  qed
qed

lemma set_rank_desc: "set (rank_desc f xs) = set xs"
  by (induction xs) (simp_all add: rank_desc_def set_insort_desc)

lemma sorted_rank_desc: "sorted_wrt (\<ge>) (map f (rank_desc f xs))"
  by (induction xs) (simp_all add: rank_desc_def sorted_insort_desc)

lemma length_rank_desc: "length (rank_desc f xs) = length xs"
proof -
  have "length (insort_desc f x ys) = Suc (length ys)" for x ys
    by (induction ys) simp_all
  then show ?thesis by (induction xs) (simp_all add: rank_desc_def)
qed

lemma sorted_take_desc:
  "sorted_wrt (\<ge>) (map f xs) \<Longrightarrow> sorted_wrt (\<ge>) (map f (take k xs))"
  by (simp add: take_map [symmetric] sorted_wrt_take)

lemma index_query_sorted: "sorted_wrt (\<ge>) (map snd (index_query sim idx qv k))"
  unfolding index_query_def by (rule sorted_take_desc) (rule sorted_rank_desc)

lemma index_query_length: "length (index_query sim idx qv k) \<le> k"
  by (simp add: index_query_def)

lemma index_query_set:
  "set (index_query sim idx qv k) \<subseteq> (\<lambda>e. (entry_chunk e, sim qv (entry_embedding e))) ` set idx"
proof -
  have "set (index_query sim idx qv k) \<subseteq>
          set (rank_desc snd (map (\<lambda>e. (entry_chunk e, sim qv (entry_embedding e))) idx))"
    unfolding index_query_def by (rule set_take_subset)
  then show ?thesis by (simp add: set_rank_desc)
qed

text \<open>
  C3.  The retriever either passes on the embedding generator's failure or returns at
  most \<open>topK\<close> results, best first: by descending similarity, or by descending
  rerank score when reranking is on.  Every result is a chunk of the index with its
  similarity to the question.
\<close>

theorem retrieve_at_most_topK_best_first:
  "case fst (retrieve embed_text sim rerank_score rerank_factor idx q topK useReranking) of
     Inl e \<Rightarrow> embed_text q = Inl e
   | Inr rs \<Rightarrow>
       length rs \<le> topK \<and>
       (if useReranking then sorted_wrt (\<ge>) (map (\<lambda>(c, s). rerank_score q c) rs)
        else sorted_wrt (\<ge>) (map snd rs)) \<and>
       (\<exists>qv. embed_text q = Inr qv \<and>
             set rs \<subseteq> (\<lambda>e. (entry_chunk e, sim qv (entry_embedding e))) ` set idx)"
proof (cases "embed_text q")
  case (Inl e)
  then show ?thesis by (simp add: retrieve_def)
next
  case (Inr qv)
  show ?thesis
  proof (cases useReranking)
    case True
    let ?cands = "index_query sim idx qv (topK * rerank_factor)"
    let ?rs = "take topK (rank_desc (\<lambda>(c, s). rerank_score q c) ?cands)"
    have r: "fst (retrieve embed_text sim rerank_score rerank_factor idx q topK useReranking) = Inr ?rs"
      using Inr True by (simp add: retrieve_def)
    have len: "length ?rs \<le> topK" by simp
    have srt: "sorted_wrt (\<ge>) (map (\<lambda>(c, s). rerank_score q c) ?rs)"
      by (rule sorted_take_desc) (rule sorted_rank_desc)
    have "set ?rs \<subseteq> set (rank_desc (\<lambda>(c, s). rerank_score q c) ?cands)"
      by (rule set_take_subset)
    also have "\<dots> = set ?cands" by (rule set_rank_desc)
    also have "\<dots> \<subseteq> (\<lambda>e. (entry_chunk e, sim qv (entry_embedding e))) ` set idx"
      by (rule index_query_set)
    finally have sub: "set ?rs \<subseteq> (\<lambda>e. (entry_chunk e, sim qv (entry_embedding e))) ` set idx" .
    show ?thesis
      unfolding r using len srt sub Inr True by simp
  next
    case False
    have r: "fst (retrieve embed_text sim rerank_score rerank_factor idx q topK useReranking)
               = Inr (index_query sim idx qv topK)"
      using Inr False by (simp add: retrieve_def)
    show ?thesis
      unfolding r using False Inr index_query_sorted [of sim idx qv topK]
        index_query_length [of sim idx qv topK] index_query_set [of sim idx qv topK]
      by simp
  qed
qed

theorem retrieve_at_most_topK_best_first_witness:
  "fst (retrieve stub_embed stub_sim stub_rerank 2 small_index ''visa'' 2 False)
     = Inr [(''student'', 0), (''character test'', -1)] \<and>
   fst (retrieve stub_embed stub_sim stub_rerank 2 small_index ''visa'' 2 True)
     = Inr [(''character test'', -1), (''partner visa'', -5)]"
  using retrieve_at_most_topK_best_first [where embed_text = stub_embed and sim = stub_sim
          and rerank_score = stub_rerank and rerank_factor = 2 and idx = small_index
          and q = "''visa''" and topK = 2 and useReranking = False]
        retrieve_at_most_topK_best_first [where embed_text = stub_embed and sim = stub_sim
          and rerank_score = stub_rerank and rerank_factor = 2 and idx = small_index
          and q = "''visa''" and topK = 2 and useReranking = True]
  by (simp add: retrieve_def index_query_def rank_desc_def stub_embed_def stub_sim_def
        stub_rerank_def small_index_def)

text \<open>
  C4.  A query with an empty question ends in an \<open>InputError\<close> before anything is
  done: whatever the collaborators, the index and the options, the response has status
  \<open>Failed InputError\<close> with no answer and no sources, and the list of calls is empty,
  so neither the embedding generator nor the generator (nor the index) is called.
\<close>

theorem query_empty_question_input_error:
  "pipeline_query embed_text sim rerank_score rerank_factor generate instr idx '''' topK useReranking =
     (\<lparr> envelope_status = Failed InputError, envelope_question = '''',
        envelope_answer = None, envelope_sources = [], envelope_generation = None \<rparr>, [])"
  by (simp add: pipeline_query_def)

theorem query_empty_question_input_error_witness:
  "pipeline_query stub_embed stub_sim stub_rerank 3 stub_generate ''sys'' small_index '''' 5 True =
     (\<lparr> envelope_status = Failed InputError, envelope_question = '''',
        envelope_answer = None, envelope_sources = [], envelope_generation = None \<rparr>, []) \<and>
   snd (pipeline_query stub_embed stub_sim stub_rerank 3 stub_generate ''sys'' small_index '''' 5 True)
     = []"
  using query_empty_question_input_error [where embed_text = stub_embed and sim = stub_sim
          and rerank_score = stub_rerank and rerank_factor = 3 and generate = stub_generate
          and instr = "''sys''" and idx = small_index and topK = 5 and useReranking = True]
  by simp

lemma empty_index_generator_called:
  assumes "q \<noteq> []" and "embed_text q = Inr qv"
  shows "snd (pipeline_query embed_text sim rerank_score rerank_factor generate instr [] q topK
                useReranking) =
           [EmbedCall q,
            IndexQueryCall qv (if useReranking then topK * rerank_factor else topK),
            GenerateCall \<lparr> instructions = instr, grounding = None, prompt_question = q \<rparr>]"
    and "envelope_sources (fst (pipeline_query embed_text sim rerank_score rerank_factor generate
                                  instr [] q topK useReranking)) = []"
  using assms
  by (cases "generate \<lparr> instructions = instr, grounding = None, prompt_question = q \<rparr>";
      simp add: pipeline_query_def retrieve_def index_query_def rank_desc_def build_prompt_def)+

text \<open>
  C5.  A question put to an empty index, with the embedding generator and the language
  model answering, retrieves no chunk and still ends in a success response: the
  generator is called, once, with a prompt that states that no grounding context was
  found, and its text is the answer.
\<close>

theorem empty_index_still_generates:
  assumes "q \<noteq> []"
    and "embed_text q = Inr qv"
    and "generate \<lparr> instructions = instr, grounding = None, prompt_question = q \<rparr> = Inr g"
  shows "pipeline_query embed_text sim rerank_score rerank_factor generate instr [] q topK useReranking =
           (\<lparr> envelope_status = Success, envelope_question = q,
              envelope_answer = Some (generated_text g), envelope_sources = [],
              envelope_generation = Some g \<rparr>,
            [EmbedCall q,
             IndexQueryCall qv (if useReranking then topK * rerank_factor else topK),
             GenerateCall \<lparr> instructions = instr, grounding = None, prompt_question = q \<rparr>])"
  using assms
  by (simp add: pipeline_query_def retrieve_def index_query_def rank_desc_def build_prompt_def)

theorem empty_index_still_generates_witness:
  "''visa'' \<noteq> [] \<and> stub_embed ''visa'' = Inr 4 \<and>
   pipeline_query stub_embed stub_sim stub_rerank 3 stub_generate ''sys'' [] ''visa'' 5 True =
     (\<lparr> envelope_status = Success, envelope_question = ''visa'',
        envelope_answer = Some ''no context'', envelope_sources = [],
        envelope_generation = Some \<lparr> generated_text = ''no context'', generation_model = ''stub'',
                                     generation_latency = 0, generation_tokens = 0 \<rparr> \<rparr>,
      [EmbedCall ''visa'', IndexQueryCall 4 15,
       GenerateCall \<lparr> instructions = ''sys'', grounding = None, prompt_question = ''visa'' \<rparr>])"
  using empty_index_still_generates [where q = "''visa''" and embed_text = stub_embed and qv = 4
          and generate = stub_generate and instr = "''sys''" and sim = stub_sim
          and rerank_score = stub_rerank and rerank_factor = 3 and topK = 5 and useReranking = True
          and g = "\<lparr> generated_text = ''no context'', generation_model = ''stub'',
             generation_latency = 0, generation_tokens = 0 \<rparr>"]
  by (simp add: stub_embed_def stub_generate_def)

end
